theory Spec2Isabelle
  imports Complex_Main
begin

section \<open>Exceptions\<close>

text \<open>
  The Python exceptions that the modelled functions can raise. A function that can raise
  returns a sum (\<open>Inl\<close> the exception), or, when it is a method that mutates its object
  and returns nothing, the pair of the exception raised (if any) and the object as the
  call leaves it.
\<close>

datatype py_error =
    AssertionError
  | ZeroDivisionError
  | IndexError
  | KeyError
  | TypeError
  | ValueError
  | ConnectionError

section \<open>Thermal PID controller (utils/tune\_temp.py)\<close>

text \<open>
  \<open>class PIDController\<close>. Python floats are modelled as reals: the theorems about the
  controller's arithmetic are statements of exact arithmetic. A float division by zero
  raises \<open>ZeroDivisionError\<close> in Python and does so in the model. An attribute that
  holds \<open>None\<close> or a float is an option.
\<close>

record pid =
  target_opt :: real
  clamped_low :: real
  clamped_high :: real
  clamp_soft :: real
  clamp_hard :: real
  reset_counter :: int
  last_timestamp :: "real option"
  error_0 :: "real option"
  error_1 :: "real option"
  delta_time :: "real option"
  ctrl :: real
  k_proportional :: real
  t_integral :: real
  t_derivative :: real
  k_ultimate :: "real option"
  stable_period :: "real option"

text \<open>\<open>__init__(init_ctrl, target_opt)\<close>; the defaults are \<open>0.0\<close> and \<open>70.0\<close>.\<close>

definition init_pid :: "real \<Rightarrow> real \<Rightarrow> pid" where
  "init_pid init_ctrl target =
     \<lparr> target_opt = target,
       clamped_low = 0,
       clamped_high = 1,
       clamp_soft = ln (1 / 0.001 - 1),
       clamp_hard = ln (1 / 0.001 - 1) * 1.25,
       reset_counter = 0,
       last_timestamp = None,
       error_0 = None,
       error_1 = None,
       delta_time = None,
       ctrl = init_ctrl,
       k_proportional = 0,
       t_integral = 0,
       t_derivative = 0,
       k_ultimate = None,
       stable_period = None \<rparr>"

text \<open>The property \<open>clamped_ctrl\<close> (getter).\<close>

definition clamped_ctrl :: "pid \<Rightarrow> real" where
  "clamped_ctrl s =
     (if ctrl s < - clamp_soft s then clamped_low s
      else if ctrl s > clamp_soft s then clamped_high s
      else clamped_low s + (clamped_high s - clamped_low s) * (1 / (1 + exp (- ctrl s))))"







text \<open>
  \<open>update_pid(error, delta_time, clamped)\<close> returns the control delta and updates the
  error history. Both divisions by \<open>dt_mid\<close> and the division by the stored
  \<open>delta_time\<close> raise when the divisor is zero; every raise comes before the first
  assignment to an attribute, so the object is unchanged when the call raises.
\<close>

definition update_pid :: "pid \<Rightarrow> real \<Rightarrow> real \<Rightarrow> bool \<Rightarrow> py_error + (real \<times> pid)" where
  "update_pid s err dt clamped =
     (let k_p0 = k_proportional s;
          k_i0 = (if t_integral s \<noteq> 0 then k_p0 / t_integral s else 0);
          k_d0 = k_p0 * t_derivative s;
          k_d1 = (if error_0 s = None then 0 else k_d0);
          k_p = (if error_0 s = None then 0 else k_p0);
          history = (case (delta_time s, error_1 s) of
                       (Some dt_prev, Some e1) \<Rightarrow>
                         (if dt_prev = 0 then Inl ZeroDivisionError
                          else Inr (k_d1, (dt + dt_prev) / 2, dt / dt_prev))
                     | _ \<Rightarrow> Inr (0, dt, 1))
      in case history of
           Inl e \<Rightarrow> Inl e
         | Inr (k_d, dt_mid, dt_ratio) \<Rightarrow>
             (let k_i = (if clamped then 0 else k_i0)
              in if dt_mid = 0 then Inl ZeroDivisionError
                 else
                   (let d0 = 0 + (k_p + k_i * dt + k_d / dt_mid) * err;
                        d1 = (case error_0 s of
                                None \<Rightarrow> d0
                              | Some e0 \<Rightarrow> d0 + (- k_p - k_d * (1 + dt_ratio) / dt_mid) * e0);
                        d2 = (case error_1 s of
                                None \<Rightarrow> d1
                              | Some e1 \<Rightarrow> d1 + (k_d * dt_ratio / dt_mid) * e1)
                    in Inr (d2, s\<lparr>error_1 := error_0 s,
                                   error_0 := Some err,
                                   delta_time := (if dt > 0 then Some dt else None)\<rparr>))))"

definition delta_update :: "pid \<Rightarrow> real \<Rightarrow> real \<Rightarrow> py_error option \<times> pid" where
  "delta_update s opt_value dt =
     (let err = target_opt s - opt_value
      in case update_pid s err dt (\<bar>ctrl s\<bar> > clamp_soft s) of
           Inl e \<Rightarrow> (Some e, s)
         | Inr (delta, s1) \<Rightarrow>
             (let s2 = s1\<lparr>ctrl := ctrl s + delta\<rparr>
              in (None, s2\<lparr>ctrl := max (- clamp_hard s2) (min (clamp_hard s2) (ctrl s2))\<rparr>)))"

definition timestamp_update :: "pid \<Rightarrow> real \<Rightarrow> real \<Rightarrow> py_error option \<times> pid" where
  "timestamp_update s opt_value timestamp =
     (case last_timestamp s of
        None \<Rightarrow> (None, s\<lparr>last_timestamp := Some timestamp\<rparr>)
      | Some lt \<Rightarrow>
          (let dt = timestamp - lt
           in delta_update (s\<lparr>last_timestamp := Some timestamp\<rparr>) opt_value dt))"



section \<open>Statistics and economic scheduler (utils/StatsHelper.py)\<close>

text \<open>
  A dictionary whose order of iteration matters is an association list in insertion
  order; its keys are distinct. A \<open>COMPILED_STATS\<close> dictionary is only read and written
  key by key and is a map from key to number. Floats are reals.
\<close>

record wu_bucket =
  TOTALWUS :: int
  total_wall_time :: real
  total_cpu_time :: real

type_synonym stats_dict = "string \<rightharpoonup> real"

record project_stats =
  CREDIT_HISTORY :: "(string \<times> real) list"
  WU_HISTORY :: "(string \<times> wu_bucket) list"
  COMPILED_STATS :: stats_dict

type_synonym combined_stats = "(string \<times> project_stats) list"


subsection \<open>\<open>calculate_credit_averages\<close>\<close>

text \<open>The dictionary that \<open>calculate_credit_averages\<close> builds for one project.\<close>

record credit_averages =
  TOTALCREDIT :: real
  AVGWALLTIME :: real
  AVGCPUTIME :: real
  AVGCREDITPERTASK :: real
  TOTALTASKS :: int
  TOTALWALLTIME :: real
  TOTALCPUTIME :: real
  AVGCREDITPERHOUR :: real
  XDAYWALLTIME :: real

text \<open>The first inner loop: the sum of \<open>CREDITAWARDED\<close> over the credit history.\<close>

fun sum_credit :: "real \<Rightarrow> (string \<times> real) list \<Rightarrow> real" where
  "sum_credit total_credit [] = total_credit"
| "sum_credit total_credit ((date, awarded) # rest) = sum_credit (total_credit + awarded) rest"

text \<open>
  The second inner loop over \<open>WU_HISTORY\<close>, with the accumulators \<open>total_wus\<close>,
  \<open>total_wall_time\<close>, \<open>x_day_wall_time\<close> and \<open>total_cpu_time\<close>. The parameter
  \<open>days_ago\<close> stands for the calendar computation on a date key: splitting the key at
  \<open>-\<close>, building the \<open>datetime\<close> and taking \<open>(datetime.now() - date).days\<close>; it gives
  the exception when the key is not a date.
\<close>

fun sum_wus ::
  "(string \<Rightarrow> py_error + int) \<Rightarrow> int \<Rightarrow> int \<times> real \<times> real \<times> real
     \<Rightarrow> (string \<times> wu_bucket) list \<Rightarrow> py_error + (int \<times> real \<times> real \<times> real)" where
  "sum_wus days_ago window acc [] = Inr acc"
| "sum_wus days_ago window (total_wus, wall, x_day, cpu) ((date, wu) # rest) =
     (case days_ago date of
        Inl e \<Rightarrow> Inl e
      | Inr d \<Rightarrow>
          sum_wus days_ago window
            (total_wus + TOTALWUS wu,
             wall + total_wall_time wu,
             (if d \<le> window then x_day + total_wall_time wu else x_day),
             cpu + total_cpu_time wu)
            rest)"

text \<open>The body of the outer loop for one project.\<close>

definition project_averages ::
  "(string \<Rightarrow> py_error + int) \<Rightarrow> int \<Rightarrow> project_stats \<Rightarrow> py_error + credit_averages" where
  "project_averages days_ago window parent_dict =
     (let total_credit = sum_credit 0 (CREDIT_HISTORY parent_dict)
      in case sum_wus days_ago window (0, 0, 0, 0) (WU_HISTORY parent_dict) of
           Inl e \<Rightarrow> Inl e
         | Inr (total_wus, wall, x_day, cpu) \<Rightarrow>
             (if total_wus = 0 then
                Inr \<lparr> TOTALCREDIT = total_credit, AVGWALLTIME = 0, AVGCPUTIME = 0,
                      AVGCREDITPERTASK = 0, TOTALTASKS = total_wus, TOTALWALLTIME = wall,
                      TOTALCPUTIME = cpu, AVGCREDITPERHOUR = 0, XDAYWALLTIME = x_day \<rparr>
              else
                (let cpu_h = cpu / 60 / 60;
                     wall_h = wall / 60 / 60;
                     x_day_h = x_day / 60 / 60
                 in if wall_h = 0 then Inl ZeroDivisionError
                    else
                      Inr \<lparr> TOTALCREDIT = total_credit,
                            AVGWALLTIME = wall_h / real_of_int total_wus,
                            AVGCPUTIME = cpu_h / real_of_int total_wus,
                            AVGCREDITPERTASK = total_credit / real_of_int total_wus,
                            TOTALTASKS = total_wus,
                            TOTALWALLTIME = wall_h,
                            TOTALCPUTIME = cpu_h,
                            AVGCREDITPERHOUR = total_credit / wall_h,
                            XDAYWALLTIME = x_day_h \<rparr>)))"

text \<open>
  \<open>calculate_credit_averages(my_stats, rolling_weight_window)\<close>: the outer loop. An
  exception in any project ends the call.
\<close>

fun calculate_credit_averages ::
  "(string \<Rightarrow> py_error + int) \<Rightarrow> combined_stats \<Rightarrow> int
     \<Rightarrow> py_error + (string \<times> credit_averages) list" where
  "calculate_credit_averages days_ago [] window = Inr []"
| "calculate_credit_averages days_ago ((project_url, parent_dict) # rest) window =
     (case project_averages days_ago window parent_dict of
        Inl e \<Rightarrow> Inl e
      | Inr avgs \<Rightarrow>
          (case calculate_credit_averages days_ago rest window of
             Inl e \<Rightarrow> Inl e
           | Inr return_stats \<Rightarrow> Inr ((project_url, avgs) # return_stats)))"

subsection \<open>\<open>add_mag_to_combined_stats\<close>\<close>

text \<open>One iteration of the loop: the updated entry and what is appended to \<open>unapproved_list\<close>.\<close>

definition add_mag_entry ::
  "(string \<rightharpoonup> real) \<Rightarrow> string list \<Rightarrow> string list \<Rightarrow> string \<times> project_stats
     \<Rightarrow> (string \<times> project_stats) \<times> string list" where
  "add_mag_entry mag_ratios approved_projects preferred_projects entry =
     (case entry of (project_url, project_stats) \<Rightarrow>
        (let found_mag_ratio = (case mag_ratios project_url of None \<Rightarrow> 0 | Some r \<Rightarrow> r)
         in if found_mag_ratio = 0 then
              ((project_url,
                project_stats\<lparr>COMPILED_STATS :=
                  (COMPILED_STATS project_stats)(''AVGMAGPERHOUR'' \<mapsto> 0, ''MAGPERCREDIT'' \<mapsto> 0)\<rparr>),
               (if project_url \<notin> set approved_projects \<and> project_url \<notin> set preferred_projects
                then [project_url] else []))
            else
              (let avg_credit_per_hour =
                     (case COMPILED_STATS project_stats ''AVGCREDITPERHOUR'' of
                        None \<Rightarrow> 0 | Some c \<Rightarrow> c)
               in ((project_url,
                    project_stats\<lparr>COMPILED_STATS :=
                      (COMPILED_STATS project_stats)
                        (''AVGMAGPERHOUR'' \<mapsto> avg_credit_per_hour * found_mag_ratio,
                         ''MAGPERCREDIT'' \<mapsto> found_mag_ratio)\<rparr>),
                   []))))"

fun add_mag_loop ::
  "(string \<rightharpoonup> real) \<Rightarrow> string list \<Rightarrow> string list \<Rightarrow> combined_stats
     \<Rightarrow> combined_stats \<times> string list" where
  "add_mag_loop mag_ratios approved preferred [] = ([], [])"
| "add_mag_loop mag_ratios approved preferred (entry # rest) =
     (case add_mag_entry mag_ratios approved preferred entry of
        (entry', unapproved) \<Rightarrow>
          (case add_mag_loop mag_ratios approved preferred rest of
             (rest', unapproved_rest) \<Rightarrow> (entry' # rest', unapproved @ unapproved_rest)))"

text \<open>
  \<open>add_mag_to_combined_stats\<close>. \<open>mag_ratios\<close> is \<open>None\<close> or a dictionary; when it is
  \<open>None\<close> or empty it is replaced by the empty dictionary, which for an empty
  dictionary changes nothing.
\<close>

definition add_mag_to_combined_stats ::
  "combined_stats \<Rightarrow> (string \<rightharpoonup> real) option \<Rightarrow> string list \<Rightarrow> string list
     \<Rightarrow> combined_stats \<times> string list" where
  "add_mag_to_combined_stats combined mag_ratios approved_projects preferred_projects =
     add_mag_loop (case mag_ratios of None \<Rightarrow> Map.empty | Some m \<Rightarrow> m)
       approved_projects preferred_projects combined"

subsection \<open>\<open>get_most_mag_efficient_projects\<close>\<close>













section \<open>Retrying RPC access (utils/GridcoinClientConnection.py, utils/BoincClientConnection.py)\<close>

text \<open>
  A decoded JSON value, as \<open>response.json()\<close> returns it, with Python's truth value.
\<close>

datatype json =
    JNull
  | JBool bool
  | JNum real
  | JStr string
  | JArr "json list"
  | JObj "(string \<times> json) list"

fun truthy :: "json \<Rightarrow> bool" where
  "truthy JNull = False"
| "truthy (JBool b) = b"
| "truthy (JNum n) = (n \<noteq> 0)"
| "truthy (JStr s) = (s \<noteq> [])"
| "truthy (JArr xs) = (xs \<noteq> [])"
| "truthy (JObj kvs) = (kvs \<noteq> [])"

text \<open>
  The network is an oracle: what the \<open>k\<close>-th request of a call does (\<open>k = 1, 2, \<dots>\<close>).
  \<open>Raises\<close> stands for any exception inside the \<open>try\<close> block: a transport error, or a
  response that cannot be parsed. The effects of a call are recorded as a trace.
\<close>

datatype 'r attempt = Raises | Responds 'r

datatype event = Sleep int | Request

text \<open>
  \<open>GridcoinClientConnection.run_command\<close>. \<open>sleep\<close> raises \<open>ValueError\<close> on a negative
  delay, outside the \<open>try\<close> block. The result is \<open>None\<close> when the loop ends, and the
  response when an attempt succeeds.
\<close>

function run_command_loop ::
  "int \<Rightarrow> int \<Rightarrow> (nat \<Rightarrow> 'r attempt) \<Rightarrow> nat \<Rightarrow> (py_error + 'r option) \<times> event list" where
  "run_command_loop retries retry_delay transport current_retries =
     (if int current_retries < retries then
        (if retry_delay < 0 then (Inl ValueError, [])
         else
           (case transport (Suc current_retries) of
              Responds return_response \<Rightarrow>
                (Inr (Some return_response), [Sleep retry_delay, Request])
            | Raises \<Rightarrow>
                (case run_command_loop retries retry_delay transport (Suc current_retries) of
                   (res, events) \<Rightarrow> (res, Sleep retry_delay # Request # events))))
      else (Inr None, []))"
  by pat_completeness auto
termination
  by (relation "measure (\<lambda>(retries, retry_delay, transport, current_retries).
                   nat (retries - int current_retries))") auto

definition run_command ::
  "int \<Rightarrow> int \<Rightarrow> (nat \<Rightarrow> 'r attempt) \<Rightarrow> (py_error + 'r option) \<times> event list" where
  "run_command retries retry_delay transport = run_command_loop retries retry_delay transport 0"

text \<open>
  \<open>run_rpc_command\<close> of the BOINC client, with \<open>max_retries = 3\<close> and \<open>retry_wait = 5\<close>.
  \<open>parse_generic\<close> is not part of the sources at hand: the parsed value has any type
  \<open>'r\<close>, and \<open>str_of\<close> is Python's \<open>str\<close> on it. An exception of the request or of
  \<open>parse_generic\<close> is \<open>Raises\<close>.
\<close>

function run_rpc_command_loop ::
  "('r \<Rightarrow> string) \<Rightarrow> (nat \<Rightarrow> 'r attempt) \<Rightarrow> nat \<Rightarrow> 'r option \<times> event list" where
  "run_rpc_command_loop str_of transport current_retries =
     (if current_retries < 3 then
        (case transport (Suc current_retries) of
           Responds parsed \<Rightarrow>
             (if str_of parsed = [] then
                (case run_rpc_command_loop str_of transport (Suc current_retries) of
                   (res, events) \<Rightarrow> (res, Sleep 5 # Request # events))
              else (Some parsed, [Sleep 5, Request]))
         | Raises \<Rightarrow>
             (case run_rpc_command_loop str_of transport (Suc current_retries) of
                (res, events) \<Rightarrow> (res, Sleep 5 # Request # events)))
      else (None, []))"
  by pat_completeness auto
termination
  by (relation "measure (\<lambda>(str_of, transport, current_retries). 3 - current_retries)") auto

definition run_rpc_command :: "('r \<Rightarrow> string) \<Rightarrow> (nat \<Rightarrow> 'r attempt) \<Rightarrow> 'r option \<times> event list" where
  "run_rpc_command str_of transport = run_rpc_command_loop str_of transport 0"

text \<open>An attempt of \<open>run_rpc_command\<close> that leads to the next retry.\<close>

definition rpc_attempt_fails :: "('r \<Rightarrow> string) \<Rightarrow> 'r attempt \<Rightarrow> bool" where
  "rpc_attempt_fails str_of a = (case a of Raises \<Rightarrow> True | Responds parsed \<Rightarrow> str_of parsed = [])"

text \<open>The trace of \<open>k\<close> attempts, each after a sleep of \<open>d\<close>.\<close>

definition sleep_then_request :: "int \<Rightarrow> nat \<Rightarrow> event list" where
  "sleep_then_request d k = concat (replicate k [Sleep d, Request])"

section \<open>Strings and URL canonicalization (utils/utils.py)\<close>

text \<open>
  Python strings are modelled as lists of characters. \<open>str.upper\<close> is modelled on ASCII:
  the letters \<open>a\<close> to \<open>z\<close> are mapped to \<open>A\<close> to \<open>Z\<close> and every other character is kept.
\<close>

definition upper_char :: "char \<Rightarrow> char" where
  "upper_char c =
     (if 97 \<le> (of_char c :: nat) \<and> (of_char c :: nat) \<le> 122
      then char_of ((of_char c :: nat) - 32) else c)"

definition upper :: "string \<Rightarrow> string" where
  "upper s = map upper_char s"

text \<open>\<open>s.startswith(p)\<close>, \<open>s.endswith(p)\<close> and \<open>sub in s\<close>.\<close>

fun startswith :: "string \<Rightarrow> string \<Rightarrow> bool" where
  "startswith s [] = True"
| "startswith [] (p # ps) = False"
| "startswith (c # cs) (p # ps) = (c = p \<and> startswith cs ps)"


fun contains :: "string \<Rightarrow> string \<Rightarrow> bool" where
  "contains sub [] = (sub = [])"
| "contains sub (c # cs) = (startswith (c # cs) sub \<or> contains sub cs)"




section \<open>Log state classifier (utils/BoincClientConnection.py)\<close>

text \<open>
  A log message is a dictionary with the keys \<open>time\<close>, \<open>body\<close> and \<open>project\<close>. A
  \<open>datetime\<close> is the number of microseconds since 0001-01-01 00:00:00, and a
  \<open>timedelta\<close> is a number of microseconds.
\<close>

record message =
  msg_time :: int
  body :: string
  project :: string

text \<open>
  \<open>timedelta.seconds\<close>: the seconds field of the normalised \<open>timedelta\<close>, which lies
  between 0 and 86399; the days are a separate field.
\<close>

definition timedelta_seconds :: "int \<Rightarrow> int" where
  "timedelta_seconds difference = (difference div 1000000) mod 86400"

subsection \<open>\<open>str\<close> of a message\<close>

text \<open>
  \<open>repr\<close> of a string of ASCII characters: double quotes when the string has a single
  quote and no double quote, single quotes otherwise; the quote and the backslash are
  escaped, and so are the control characters.
\<close>

definition hex_digit :: "nat \<Rightarrow> char" where
  "hex_digit d = (if d < 10 then char_of (48 + d) else char_of (87 + d))"

definition repr_char :: "char \<Rightarrow> char \<Rightarrow> string" where
  "repr_char quote c =
     (if c = quote \<or> c = CHR 0x5C then [CHR 0x5C, c]
      else if c = CHR 0x09 then [CHR 0x5C, CHR ''t'']
      else if c = CHR 0x0A then [CHR 0x5C, CHR ''n'']
      else if c = CHR 0x0D then [CHR 0x5C, CHR ''r'']
      else if (of_char c :: nat) < 32 \<or> (of_char c :: nat) = 127
        then [CHR 0x5C, CHR ''x'', hex_digit ((of_char c :: nat) div 16),
              hex_digit ((of_char c :: nat) mod 16)]
      else [c])"

definition repr_str :: "string \<Rightarrow> string" where
  "repr_str s =
     (let quote = (if CHR 0x27 \<in> set s \<and> CHR 0x22 \<notin> set s then CHR 0x22 else CHR 0x27)
      in [quote] @ concat (map (repr_char quote) s) @ [quote])"

text \<open>
  \<open>str(message)\<close> for a dictionary built as the test helper
  \<open>make_fake_boinc_log_entry\<close> builds it, keys in the order \<open>time\<close>, \<open>body\<close>,
  \<open>project\<close>. The parameter \<open>repr_time\<close> is \<open>repr\<close> on a \<open>datetime\<close>, which prints
  the calendar date and the time of day.
\<close>

definition str_message :: "(int \<Rightarrow> string) \<Rightarrow> message \<Rightarrow> string" where
  "str_message repr_time m =
     ''{'time': '' @ repr_time (msg_time m) @ '', 'body': '' @ repr_str (body m)
       @ '', 'project': '' @ repr_str (project m) @ ''}''"

subsection \<open>\<open>cache_full\<close>\<close>

text \<open>
  The functions below take \<open>str\<close> on a message as the parameter \<open>msg_str\<close>, since the
  dictionaries that the BOINC client sends have further keys, and the clock reading
  \<open>datetime.datetime.now()\<close> as the parameter \<open>now\<close>. Logging is not modelled.
\<close>

definition cpu_cache_full_phrase :: "string \<Rightarrow> bool" where
  "cpu_cache_full_phrase uppered_message_body \<longleftrightarrow>
     contains ''CPU: JOB CACHE FULL'' uppered_message_body
     \<or> contains ''NOT REQUESTING TASKS: DON'T NEED (JOB CACHE FULL)'' uppered_message_body"

text \<open>The body of the loop of \<open>cache_full\<close>: the flags \<open>(cpu_full, gpu_full)\<close> after one message.\<close>

definition cache_full_step ::
  "(message \<Rightarrow> string) \<Rightarrow> int \<Rightarrow> string \<Rightarrow> bool \<times> bool \<Rightarrow> message \<Rightarrow> bool \<times> bool" where
  \<open>cache_full_step msg_str now uppered_project flags m =
     (case flags of (cpu_full, gpu_full) \<Rightarrow>
        if \<not> contains uppered_project (upper (msg_str m)) then flags
        else if timedelta_seconds (now - msg_time m) > 60 * 5 then flags
        else
          (let uppered_message_body = upper (body m)
           in if contains ''NOT REQUESTING TASKS: "NO NEW TASKS" REQUESTED VIA MANAGER''
                   uppered_message_body
              then flags
              else if uppered_project = upper (project m) then
                (let cpu_full = (cpu_full \<or> cpu_cache_full_phrase uppered_message_body)
                 in if contains (upper ''NOT REQUESTING TASKS: DON'T NEED'') uppered_message_body
                    then
                      (let gpu_full = (gpu_full \<or> \<not> contains ''GPU'' (upper (body m)));
                           cpu_full = (cpu_full \<or> cpu_cache_full_phrase uppered_message_body);
                           gpu_full = (gpu_full
                                       \<or> contains ''GPU: JOB CACHE FULL'' uppered_message_body
                                       \<or> contains ''GPUS NOT USABLE'' uppered_message_body)
                       in (cpu_full, gpu_full))
                    else (cpu_full, gpu_full))
              else flags))\<close>

fun cache_full_loop ::
  "(message \<Rightarrow> string) \<Rightarrow> int \<Rightarrow> string \<Rightarrow> bool \<times> bool \<Rightarrow> message list \<Rightarrow> bool \<times> bool" where
  "cache_full_loop msg_str now uppered_project flags [] = flags"
| "cache_full_loop msg_str now uppered_project flags (m # messages) =
     cache_full_loop msg_str now uppered_project
       (cache_full_step msg_str now uppered_project flags m) messages"

definition cache_full :: "(message \<Rightarrow> string) \<Rightarrow> int \<Rightarrow> string \<Rightarrow> message list \<Rightarrow> bool" where
  "cache_full msg_str now project_name messages =
     (case cache_full_loop msg_str now (upper project_name) (False, False) messages of
        (cpu_full, gpu_full) \<Rightarrow> if cpu_full \<and> gpu_full then True else False)"

subsection \<open>\<open>project_backoff\<close>\<close>

definition positive_phrases :: "string list" where
  "positive_phrases =
     [''PROJECT HAS NO TASKS AVAILABLE'',
      ''SCHEDULER REQUEST FAILED'',
      ''NO TASKS SENT'',
      ''LAST REQUEST TOO RECENT'',
      ''AN NVIDIA GPU IS REQUIRED TO RUN TASKS FOR THIS PROJECT'']"

definition negative_phrases :: "string list" where
  "negative_phrases =
     [''NOT REQUESTING TASKS: DON'T NEED'',
      ''STARTED DOWNLOAD'',
      ''FINISHED DOWNLOAD OF'']"

definition ignore_phrases :: "string list" where
  "ignore_phrases =
     [''WORK FETCH RESUMED BY USER'',
      ''UPDATE REQUESTED BY USER'',
      ''WORK FETCH SUSPENDED BY USER'',
      ''STARTING TASK'',
      ''REQUESTING NEW TASKS'',
      ''SENDING SCHEDULER REQUEST'',
      ''SCHEDULER REQUEST COMPLETED'',
      ''STARTED UPLOAD'',
      ''FINISHED UPLOAD'',
      ''MASTER FILE DOWNLOAD SUCCEEDED'',
      ''FETCHING SCHEDULER LIST'',
      ''UPGRADE TO THE LATEST DRIVER TO PROCESS TASKS USING YOUR COMPUTER'S GPU'',
      ''NOT STARTED AND DEADLINE HAS PASSED'',
      ''PROJECT REQUESTED DELAY OF'']"

text \<open>\<open>for phrase in phrases: if phrase in text: \<dots>\<close>.\<close>

definition any_phrase_in :: "string list \<Rightarrow> string \<Rightarrow> bool" where
  "any_phrase_in phrases text \<longleftrightarrow> (\<exists>phrase \<in> set phrases. contains phrase text)"

definition backoff_ignore_message :: "message \<Rightarrow> string list \<Rightarrow> bool" where
  "backoff_ignore_message m phrases =
     (let uppered = upper (body m)
      in if any_phrase_in phrases uppered then True
         else if contains ''GOT'' uppered \<and> contains ''NEW TASKS'' uppered then True
         else if contains ''REPORTING'' uppered \<and> contains ''COMPLETED TASKS'' uppered then True
         else if contains ''COMPUTATION FOR TASK'' uppered \<and> contains ''FINISHED'' uppered then True
         else False)"

fun project_backoff_loop ::
  "(message \<Rightarrow> string) \<Rightarrow> int \<Rightarrow> string \<Rightarrow> message list \<Rightarrow> bool" where
  "project_backoff_loop msg_str now uppered_project [] = False"
| "project_backoff_loop msg_str now uppered_project (m # messages) =
     (let uppered_body = upper (body m);
          uppered_message = upper (msg_str m)
      in if \<not> contains uppered_project uppered_message
           then project_backoff_loop msg_str now uppered_project messages
         else if timedelta_seconds (now - msg_time m) > 60 * 5
           then project_backoff_loop msg_str now uppered_project messages
         else if backoff_ignore_message m ignore_phrases
           then project_backoff_loop msg_str now uppered_project messages
         else if any_phrase_in positive_phrases uppered_body then True
         else if any_phrase_in negative_phrases uppered_body then False
         else if contains ''NEEDS'' uppered_body \<and> contains ''BUT ONLY'' uppered_body
                 \<and> contains ''IS AVAILABLE FOR USE'' uppered_body
           then True
         else project_backoff_loop msg_str now uppered_project messages)"

definition project_backoff :: "(message \<Rightarrow> string) \<Rightarrow> int \<Rightarrow> string \<Rightarrow> message list \<Rightarrow> bool" where
  "project_backoff msg_str now project_name messages =
     project_backoff_loop msg_str now (upper project_name) messages"

subsection \<open>The notions of the specification\<close>

text \<open>A message whose timestamp is more than 5 minutes before the evaluation time.\<close>

definition older_than_5_minutes :: "int \<Rightarrow> message \<Rightarrow> bool" where
  "older_than_5_minutes now m \<longleftrightarrow> now - msg_time m > 5 * 60 * 1000000"

text \<open>A message tagged with the project, that is, one whose project field names it.\<close>

definition tagged_with :: "string \<Rightarrow> message \<Rightarrow> bool" where
  "tagged_with project_name m \<longleftrightarrow> upper (project m) = upper project_name"

text \<open>The CPU-full signal and the GPU-full (or no-GPU) signal of a message body.\<close>

definition cpu_full_signal :: "message \<Rightarrow> bool" where
  "cpu_full_signal m \<longleftrightarrow> cpu_cache_full_phrase (upper (body m))"

definition gpu_full_signal :: "message \<Rightarrow> bool" where
  "gpu_full_signal m \<longleftrightarrow>
     contains ''GPU: JOB CACHE FULL'' (upper (body m))
     \<or> contains ''GPUS NOT USABLE'' (upper (body m))
     \<or> (contains ''NOT REQUESTING TASKS: DON'T NEED'' (upper (body m))
         \<and> \<not> contains ''GPU'' (upper (body m)))"

section \<open>Magnitude ratio engine (utils/GridcoinClientConnection.py)\<close>


















section \<open>Theorems: PID controller\<close>

text \<open>
  C9. On the first call of \<open>timestamp_update\<close>, when \<open>last_timestamp\<close> is \<open>None\<close>, the
  call returns normally and only \<open>last_timestamp\<close> is assigned: the controller is the old
  one with the new timestamp, so \<open>ctrl\<close>, \<open>error_0\<close>, \<open>error_1\<close>, \<open>delta_time\<close> and the
  clamped output \<open>clamped_ctrl\<close> are what they were.
\<close>

theorem timestamp_update_first_call:
  assumes "last_timestamp s = None"
  shows "timestamp_update s v t = (None, s\<lparr>last_timestamp := Some t\<rparr>)
       \<and> ctrl (snd (timestamp_update s v t)) = ctrl s
       \<and> error_0 (snd (timestamp_update s v t)) = error_0 s
       \<and> error_1 (snd (timestamp_update s v t)) = error_1 s
       \<and> delta_time (snd (timestamp_update s v t)) = delta_time s
       \<and> clamped_ctrl (snd (timestamp_update s v t)) = clamped_ctrl s"
  using assms by (simp add: timestamp_update_def clamped_ctrl_def)

theorem timestamp_update_first_call_witness:
  "last_timestamp (init_pid 0 70) = None
   \<and> timestamp_update (init_pid 0 70) 65 1000 = (None, (init_pid 0 70)\<lparr>last_timestamp := Some 1000\<rparr>)
   \<and> clamped_ctrl (snd (timestamp_update (init_pid 0 70) 65 1000)) = clamped_ctrl (init_pid 0 70)"
proof -
  have h: "last_timestamp (init_pid 0 70) = None"
    by (simp add: init_pid_def)
  show ?thesis
    using h timestamp_update_first_call [OF h, of 65 1000] by blast
qed

subsection \<open>Export and import of the controller state\<close>










section \<open>Theorems: statistics and economic scheduler\<close>

subsection \<open>\<open>add_mag_to_combined_stats\<close>\<close>

lemma add_mag_entry_zero_like_missing:
  assumes "m p = Some 0"
  shows "add_mag_entry m ap pp e = add_mag_entry (m(p := None)) ap pp e"
  using assms by (cases e) (simp add: add_mag_entry_def)

lemma add_mag_loop_zero_like_missing:
  assumes "m p = Some 0"
  shows "add_mag_loop m ap pp cs = add_mag_loop (m(p := None)) ap pp cs"
proof (induction cs)
  case Nil
  show ?case by simp
next
  case (Cons e cs)
  have "add_mag_entry m ap pp e = add_mag_entry (m(p := None)) ap pp e"
    using assms by (rule add_mag_entry_zero_like_missing)
  with Cons show ?case by (simp only: add_mag_loop.simps)
qed

lemma add_mag_loop_unapproved:
  "q \<in> set (snd (add_mag_loop m ap pp cs)) \<Longrightarrow> q \<notin> set ap \<and> q \<notin> set pp"
  by (induction cs) (auto simp add: add_mag_entry_def Let_def split: prod.splits if_splits)

lemma add_mag_loop_entry:
  assumes "(p, ps) \<in> set cs" and "m p = None \<or> m p = Some 0"
  shows "(p, ps\<lparr>COMPILED_STATS :=
                 (COMPILED_STATS ps)(''AVGMAGPERHOUR'' \<mapsto> 0, ''MAGPERCREDIT'' \<mapsto> 0)\<rparr>)
           \<in> set (fst (add_mag_loop m ap pp cs))
       \<and> (p \<notin> set ap \<and> p \<notin> set pp \<longrightarrow> p \<in> set (snd (add_mag_loop m ap pp cs)))"
  using assms
  by (induction cs) (auto simp add: add_mag_entry_def Let_def split: prod.splits if_splits)

text \<open>
  C10. A project \<open>p\<close> whose entry in \<open>mag_ratios\<close> is present and exactly 0 is treated as
  a project missing from \<open>mag_ratios\<close>: the call returns what it returns on the dictionary
  without the key \<open>p\<close>; the entry of \<open>p\<close> comes back with \<open>AVGMAGPERHOUR\<close> and
  \<open>MAGPERCREDIT\<close> set to 0; and \<open>p\<close> is in the returned unapproved list exactly when it
  is neither in \<open>approved_projects\<close> nor in \<open>preferred_projects\<close>.
\<close>

theorem zero_ratio_treated_as_missing:
  assumes "mag_ratios p = Some 0" and "(p, ps) \<in> set combined"
  shows "add_mag_to_combined_stats combined (Some mag_ratios) approved preferred
           = add_mag_to_combined_stats combined (Some (mag_ratios(p := None))) approved preferred
       \<and> (p, ps\<lparr>COMPILED_STATS :=
                   (COMPILED_STATS ps)(''AVGMAGPERHOUR'' \<mapsto> 0, ''MAGPERCREDIT'' \<mapsto> 0)\<rparr>)
           \<in> set (fst (add_mag_to_combined_stats combined (Some mag_ratios) approved preferred))
       \<and> (p \<in> set (snd (add_mag_to_combined_stats combined (Some mag_ratios) approved preferred))
            \<longleftrightarrow> p \<notin> set approved \<and> p \<notin> set preferred)"
proof -
  have z: "mag_ratios p = None \<or> mag_ratios p = Some 0"
    using assms(1) by simp
  show ?thesis
    unfolding add_mag_to_combined_stats_def option.case
    using add_mag_loop_zero_like_missing [of mag_ratios p approved preferred combined, OF assms(1)]
      add_mag_loop_entry [of p ps combined mag_ratios approved preferred, OF assms(2) z]
      add_mag_loop_unapproved [of p mag_ratios approved preferred combined]
    by blast
qed

theorem zero_ratio_treated_as_missing_witness:
  "[''ESCATTER11.FULLERTON.EDU/NFS'' \<mapsto> (0::real)] ''ESCATTER11.FULLERTON.EDU/NFS'' = Some 0
   \<and> (''ESCATTER11.FULLERTON.EDU/NFS'',
        \<lparr>CREDIT_HISTORY = [], WU_HISTORY = [], COMPILED_STATS = [''AVGCREDITPERHOUR'' \<mapsto> 5]\<rparr>)
       \<in> set [(''ESCATTER11.FULLERTON.EDU/NFS'',
                \<lparr>CREDIT_HISTORY = [], WU_HISTORY = [],
                 COMPILED_STATS = [''AVGCREDITPERHOUR'' \<mapsto> 5]\<rparr>)]
   \<and> add_mag_to_combined_stats
        [(''ESCATTER11.FULLERTON.EDU/NFS'',
          \<lparr>CREDIT_HISTORY = [], WU_HISTORY = [], COMPILED_STATS = [''AVGCREDITPERHOUR'' \<mapsto> 5]\<rparr>)]
        (Some [''ESCATTER11.FULLERTON.EDU/NFS'' \<mapsto> 0]) [] []
       = add_mag_to_combined_stats
           [(''ESCATTER11.FULLERTON.EDU/NFS'',
             \<lparr>CREDIT_HISTORY = [], WU_HISTORY = [], COMPILED_STATS = [''AVGCREDITPERHOUR'' \<mapsto> 5]\<rparr>)]
           (Some ([''ESCATTER11.FULLERTON.EDU/NFS'' \<mapsto> 0](''ESCATTER11.FULLERTON.EDU/NFS'' := None)))
           [] []
   \<and> ''ESCATTER11.FULLERTON.EDU/NFS''
       \<in> set (snd (add_mag_to_combined_stats
            [(''ESCATTER11.FULLERTON.EDU/NFS'',
              \<lparr>CREDIT_HISTORY = [], WU_HISTORY = [], COMPILED_STATS = [''AVGCREDITPERHOUR'' \<mapsto> 5]\<rparr>)]
            (Some [''ESCATTER11.FULLERTON.EDU/NFS'' \<mapsto> 0]) [] []))"
proof -
  let ?p = "''ESCATTER11.FULLERTON.EDU/NFS''"
  let ?ps = "\<lparr>CREDIT_HISTORY = [], WU_HISTORY = [], COMPILED_STATS = [''AVGCREDITPERHOUR'' \<mapsto> 5]\<rparr>"
  have h1: "[?p \<mapsto> (0::real)] ?p = Some 0"
    by simp
  have h2: "(?p, ?ps) \<in> set [(?p, ?ps)]"
    by simp
  have e: "?p \<notin> set [] \<and> ?p \<notin> set []"
    by simp
  show ?thesis
    using h1 h2 e
      zero_ratio_treated_as_missing
        [where mag_ratios = "[?p \<mapsto> 0]" and p = ?p and ps = ?ps
           and combined = "[(?p, ?ps)]" and approved = "[]" and preferred = "[]", OF h1 h2]
    by blast
qed

subsection \<open>\<open>calculate_credit_averages\<close>\<close>

text \<open>
  When the total task count of a project is zero, the per-task and per-hour fields are
  zero.
\<close>

lemma project_averages_zero_tasks:
  assumes "sum_wus days_ago window (0, 0, 0, 0) (WU_HISTORY parent_dict) = Inr (0, wall, x_day, cpu)"
  shows "\<exists>avgs. project_averages days_ago window parent_dict = Inr avgs
           \<and> AVGWALLTIME avgs = 0 \<and> AVGCPUTIME avgs = 0
           \<and> AVGCREDITPERTASK avgs = 0 \<and> AVGCREDITPERHOUR avgs = 0"
  using assms by (simp add: project_averages_def)

text \<open>
  C7 fails on the code where the task count is not zero and the summed wall time is:
  the guard tests \<open>total_wus\<close> only, and \<open>total_credit / total_wall_time\<close> divides by
  zero. One work unit with wall time 0 is enough.
\<close>

theorem calculate_credit_averages_zero_wall_time:
  "calculate_credit_averages (\<lambda>date. Inr 0)
     [(''RECHENKRAFT.NET/YOYO'',
       \<lparr>CREDIT_HISTORY = [],
        WU_HISTORY = [(''10-02-2022'', \<lparr>TOTALWUS = 1, total_wall_time = 0, total_cpu_time = 0\<rparr>)],
        COMPILED_STATS = Map.empty\<rparr>)]
     60
   = Inl ZeroDivisionError"
  by (simp add: project_averages_def)

subsection \<open>\<open>get_most_mag_efficient_projects\<close>\<close>


















section \<open>Theorems: retrying RPC access\<close>

declare run_command_loop.simps [simp del]
declare run_rpc_command_loop.simps [simp del]

lemma run_command_loop_spec:
  assumes "0 \<le> d"
  shows "\<exists>k. int c + int k \<le> max retries (int c)
           \<and> snd (run_command_loop retries d t c) = sleep_then_request d k
           \<and> (\<forall>i. c < i \<and> i < c + k \<longrightarrow> t i = Raises)
           \<and> (case fst (run_command_loop retries d t c) of
                 Inl e \<Rightarrow> False
               | Inr None \<Rightarrow> int c + int k = max retries (int c) \<and> (k > 0 \<longrightarrow> t (c + k) = Raises)
               | Inr (Some v) \<Rightarrow> k > 0 \<and> t (c + k) = Responds v)"
  using assms
proof (induction retries d t c rule: run_command_loop.induct)
  case (1 retries d t c)
  show ?case
  proof (cases "int c < retries")
    case False
    then have "run_command_loop retries d t c = (Inr None, [])"
      by (subst run_command_loop.simps) simp
    then show ?thesis using False
      by (intro exI [of _ 0]) (auto simp add: sleep_then_request_def)
  next
    case True
    show ?thesis
    proof (cases "t (Suc c)")
      case (Responds v)
      have "int c + int 1 \<le> max retries (int c)" using True by simp
      moreover have "snd (run_command_loop retries d t c) = sleep_then_request d 1"
        using True 1(2) Responds
        by (subst run_command_loop.simps) (simp add: sleep_then_request_def)
      moreover have "fst (run_command_loop retries d t c) = Inr (Some v)"
        using True 1(2) Responds
        by (subst run_command_loop.simps) simp
      ultimately show ?thesis using Responds True
        by (intro exI [of _ 1]) auto
    next
      case Raises
      have nd: "\<not> d < 0" using 1(2) by simp
      from 1(1) [OF True nd Raises 1(2)] obtain k where
        k: "int (Suc c) + int k \<le> max retries (int (Suc c))"
           "snd (run_command_loop retries d t (Suc c)) = sleep_then_request d k"
           "\<forall>i. Suc c < i \<and> i < Suc c + k \<longrightarrow> t i = Raises"
           "(case fst (run_command_loop retries d t (Suc c)) of
                 Inl e \<Rightarrow> False
               | Inr None \<Rightarrow> int (Suc c) + int k = max retries (int (Suc c))
                     \<and> (k > 0 \<longrightarrow> t (Suc c + k) = Raises)
               | Inr (Some v) \<Rightarrow> k > 0 \<and> t (Suc c + k) = Responds v)"
        by blast
      have u: "run_command_loop retries d t c
                 = (fst (run_command_loop retries d t (Suc c)),
                    Sleep d # Request # snd (run_command_loop retries d t (Suc c)))"
        using True nd Raises
        by (subst run_command_loop.simps) (simp add: case_prod_beta)
      have m: "max retries (int (Suc c)) = max retries (int c)" using True by simp
      have a: "int c + int (Suc k) \<le> max retries (int c)" using k(1) m by simp
      have b: "snd (run_command_loop retries d t c) = sleep_then_request d (Suc k)"
        using u k(2) by (simp add: sleep_then_request_def)
      have c': "\<forall>i. c < i \<and> i < c + Suc k \<longrightarrow> t i = Raises"
      proof (intro allI impI)
        fix i assume "c < i \<and> i < c + Suc k"
        then have "i = Suc c \<or> (Suc c < i \<and> i < Suc c + k)" by auto
        then show "t i = Raises" using Raises k(3) by blast
      qed
      have e: "(case fst (run_command_loop retries d t c) of
                 Inl e \<Rightarrow> False
               | Inr None \<Rightarrow> int c + int (Suc k) = max retries (int c)
                     \<and> (Suc k > 0 \<longrightarrow> t (c + Suc k) = Raises)
               | Inr (Some v) \<Rightarrow> Suc k > 0 \<and> t (c + Suc k) = Responds v)"
        using k(4) u m Raises
        by (cases k) (auto split: sum.splits option.splits)
      show ?thesis
        using a b c' e by blast
    qed
  qed
qed


lemma run_rpc_command_loop_spec:
  "\<exists>k. c + k \<le> max 3 c
       \<and> snd (run_rpc_command_loop str_of t c) = sleep_then_request 5 k
       \<and> (\<forall>i. c < i \<and> i < c + k \<longrightarrow> rpc_attempt_fails str_of (t i))
       \<and> (case fst (run_rpc_command_loop str_of t c) of
             None \<Rightarrow> c + k = max 3 c \<and> (k > 0 \<longrightarrow> rpc_attempt_fails str_of (t (c + k)))
           | Some v \<Rightarrow> k > 0 \<and> t (c + k) = Responds v \<and> str_of v \<noteq> [])"
proof (induction str_of t c rule: run_rpc_command_loop.induct)
  case (1 str_of t c)
  show ?case
  proof (cases "c < 3")
    case False
    then have "run_rpc_command_loop str_of t c = (None, [])"
      by (subst run_rpc_command_loop.simps) simp
    then show ?thesis using False
      by (intro exI [of _ 0]) (auto simp add: sleep_then_request_def)
  next
    case True
    show ?thesis
    proof (cases "rpc_attempt_fails str_of (t (Suc c))")
      case False
      then obtain v where v: "t (Suc c) = Responds v" "str_of v \<noteq> []"
        by (auto simp add: rpc_attempt_fails_def split: attempt.splits)
      have "run_rpc_command_loop str_of t c = (Some v, [Sleep 5, Request])"
        using True v by (subst run_rpc_command_loop.simps) simp
      then show ?thesis using v True
        by (intro exI [of _ 1]) (auto simp add: sleep_then_request_def)
    next
      case fails: True
      have ih: "\<exists>k. Suc c + k \<le> max 3 (Suc c)
       \<and> snd (run_rpc_command_loop str_of t (Suc c)) = sleep_then_request 5 k
       \<and> (\<forall>i. Suc c < i \<and> i < Suc c + k \<longrightarrow> rpc_attempt_fails str_of (t i))
       \<and> (case fst (run_rpc_command_loop str_of t (Suc c)) of
             None \<Rightarrow> Suc c + k = max 3 (Suc c)
                  \<and> (k > 0 \<longrightarrow> rpc_attempt_fails str_of (t (Suc c + k)))
           | Some v \<Rightarrow> k > 0 \<and> t (Suc c + k) = Responds v \<and> str_of v \<noteq> [])"
      proof (cases "t (Suc c)")
        case Raises
        show ?thesis using 1(1) [OF True Raises] .
      next
        case (Responds v)
        then have "str_of v = []" using fails by (simp add: rpc_attempt_fails_def)
        then show ?thesis using 1(2) [OF True Responds] by simp
      qed
      then obtain k where
        k: "Suc c + k \<le> max 3 (Suc c)"
           "snd (run_rpc_command_loop str_of t (Suc c)) = sleep_then_request 5 k"
           "\<forall>i. Suc c < i \<and> i < Suc c + k \<longrightarrow> rpc_attempt_fails str_of (t i)"
           "(case fst (run_rpc_command_loop str_of t (Suc c)) of
             None \<Rightarrow> Suc c + k = max 3 (Suc c)
                  \<and> (k > 0 \<longrightarrow> rpc_attempt_fails str_of (t (Suc c + k)))
           | Some v \<Rightarrow> k > 0 \<and> t (Suc c + k) = Responds v \<and> str_of v \<noteq> [])"
        by blast
      have u: "run_rpc_command_loop str_of t c
                 = (fst (run_rpc_command_loop str_of t (Suc c)),
                    Sleep 5 # Request # snd (run_rpc_command_loop str_of t (Suc c)))"
        using True fails
        by (subst run_rpc_command_loop.simps)
           (simp add: case_prod_beta rpc_attempt_fails_def split: attempt.splits)
      have m: "max 3 (Suc c) = max 3 c" using True by simp
      have a: "c + Suc k \<le> max 3 c" using k(1) m by simp
      have b: "snd (run_rpc_command_loop str_of t c) = sleep_then_request 5 (Suc k)"
        using u k(2) by (simp add: sleep_then_request_def)
      have c': "\<forall>i. c < i \<and> i < c + Suc k \<longrightarrow> rpc_attempt_fails str_of (t i)"
      proof (intro allI impI)
        fix i assume "c < i \<and> i < c + Suc k"
        then have "i = Suc c \<or> (Suc c < i \<and> i < Suc c + k)" by auto
        then show "rpc_attempt_fails str_of (t i)" using fails k(3) by blast
      qed
      have e: "(case fst (run_rpc_command_loop str_of t c) of
             None \<Rightarrow> c + Suc k = max 3 c
                  \<and> (Suc k > 0 \<longrightarrow> rpc_attempt_fails str_of (t (c + Suc k)))
           | Some v \<Rightarrow> Suc k > 0 \<and> t (c + Suc k) = Responds v \<and> str_of v \<noteq> [])"
        using k(4) u m fails
        by (cases k) (auto split: option.splits)
      show ?thesis
        using a b c' e by blast
    qed
  qed
qed

text \<open>
  C5, as stated, fails for \<open>run_command\<close>: a response that parses to a falsy value (here
  the empty object) does not trigger a retry. It is returned after the first attempt.
\<close>

theorem falsy_response_returned_without_retry:
  "run_command 3 1 (\<lambda>k. Responds (JObj [])) = (Inr (Some (JObj [])), [Sleep 1, Request])
   \<and> \<not> truthy (JObj [])"
  by (simp add: run_command_def run_command_loop.simps)

text \<open>
  C5, amended. With a delay that is not negative, \<open>run_command\<close> makes \<open>k\<close> attempts, at
  most \<open>retries\<close>, each right after a sleep of the configured delay; every attempt before
  the last raised an exception; the call never raises; it returns \<open>None\<close> exactly when all
  \<open>retries\<close> attempts raised, and otherwise the response of the last attempt, whatever its
  truth value. \<open>run_rpc_command\<close> does the same with 3 attempts and a delay of 5, where an
  attempt also fails when the parsed response has the empty string as its \<open>str\<close>.
\<close>

theorem retry_contract:
  assumes "0 \<le> retry_delay"
  shows "(\<exists>k. int k \<le> max retries 0
            \<and> snd (run_command retries retry_delay t) = sleep_then_request retry_delay k
            \<and> (\<forall>i. 0 < i \<and> i < k \<longrightarrow> t i = Raises)
            \<and> (case fst (run_command retries retry_delay t) of
                  Inl e \<Rightarrow> False
                | Inr None \<Rightarrow> int k = max retries 0 \<and> (k > 0 \<longrightarrow> t k = Raises)
                | Inr (Some v) \<Rightarrow> k > 0 \<and> t k = Responds v))
       \<and> (\<exists>k. k \<le> 3
            \<and> snd (run_rpc_command str_of u) = sleep_then_request 5 k
            \<and> (\<forall>i. 0 < i \<and> i < k \<longrightarrow> rpc_attempt_fails str_of (u i))
            \<and> (case fst (run_rpc_command str_of u) of
                  None \<Rightarrow> k = 3 \<and> rpc_attempt_fails str_of (u 3)
                | Some v \<Rightarrow> k > 0 \<and> u k = Responds v \<and> str_of v \<noteq> []))"
proof
  show "\<exists>k. int k \<le> max retries 0
            \<and> snd (run_command retries retry_delay t) = sleep_then_request retry_delay k
            \<and> (\<forall>i. 0 < i \<and> i < k \<longrightarrow> t i = Raises)
            \<and> (case fst (run_command retries retry_delay t) of
                  Inl e \<Rightarrow> False
                | Inr None \<Rightarrow> int k = max retries 0 \<and> (k > 0 \<longrightarrow> t k = Raises)
                | Inr (Some v) \<Rightarrow> k > 0 \<and> t k = Responds v)"
    using run_command_loop_spec [OF assms, of 0 retries t]
    unfolding run_command_def of_nat_0 add_0 .
  show "\<exists>k. k \<le> 3
            \<and> snd (run_rpc_command str_of u) = sleep_then_request 5 k
            \<and> (\<forall>i. 0 < i \<and> i < k \<longrightarrow> rpc_attempt_fails str_of (u i))
            \<and> (case fst (run_rpc_command str_of u) of
                  None \<Rightarrow> k = 3 \<and> rpc_attempt_fails str_of (u 3)
                | Some v \<Rightarrow> k > 0 \<and> u k = Responds v \<and> str_of v \<noteq> [])"
  proof -
    from run_rpc_command_loop_spec [of 0 str_of u] obtain k where
      k: "k \<le> 3" "snd (run_rpc_command str_of u) = sleep_then_request 5 k"
         "\<forall>i. 0 < i \<and> i < k \<longrightarrow> rpc_attempt_fails str_of (u i)"
         "(case fst (run_rpc_command str_of u) of
             None \<Rightarrow> k = max 3 0 \<and> (k > 0 \<longrightarrow> rpc_attempt_fails str_of (u k))
           | Some v \<Rightarrow> k > 0 \<and> u k = Responds v \<and> str_of v \<noteq> [])"
      unfolding run_rpc_command_def add_0 by auto
    have "(case fst (run_rpc_command str_of u) of
                  None \<Rightarrow> k = 3 \<and> rpc_attempt_fails str_of (u 3)
                | Some v \<Rightarrow> k > 0 \<and> u k = Responds v \<and> str_of v \<noteq> [])"
      using k(4) by (auto split: option.splits)
    then show ?thesis using k(1,2,3) by blast
  qed
qed

theorem retry_contract_witness:
  "(0::int) \<le> 1
   \<and> run_command 3 1 (\<lambda>k. if k < 3 then Raises else Responds (JStr ''ok''))
       = (Inr (Some (JStr ''ok'')), [Sleep 1, Request, Sleep 1, Request, Sleep 1, Request])
   \<and> run_command 3 1 (\<lambda>k. Raises :: json attempt)
       = (Inr None, [Sleep 1, Request, Sleep 1, Request, Sleep 1, Request])
   \<and> run_rpc_command (\<lambda>s. s) (\<lambda>k. if k < 2 then Responds [] else Responds ''<success/>'')
       = (Some ''<success/>'', [Sleep 5, Request, Sleep 5, Request])
   \<and> (\<exists>k. int k \<le> max 3 0
          \<and> snd (run_command 3 1 (\<lambda>k. if k < 3 then Raises else Responds (JStr ''ok'')))
              = sleep_then_request 1 k
          \<and> (\<forall>i. 0 < i \<and> i < k \<longrightarrow> (if i < 3 then Raises else Responds (JStr ''ok'')) = Raises))"
proof -
  have h: "(0::int) \<le> 1"
    by simp
  have e1: "run_command 3 1 (\<lambda>k. if k < 3 then Raises else Responds (JStr ''ok''))
       = (Inr (Some (JStr ''ok'')), [Sleep 1, Request, Sleep 1, Request, Sleep 1, Request])"
    by (simp add: run_command_def run_command_loop.simps)
  have e2: "run_command 3 1 (\<lambda>k. Raises :: json attempt)
       = (Inr None, [Sleep 1, Request, Sleep 1, Request, Sleep 1, Request])"
    by (simp add: run_command_def run_command_loop.simps)
  have e3: "run_rpc_command (\<lambda>s. s) (\<lambda>k. if k < 2 then Responds [] else Responds ''<success/>'')
       = (Some ''<success/>'', [Sleep 5, Request, Sleep 5, Request])"
    by (simp add: run_rpc_command_def run_rpc_command_loop.simps)
  have e4: "\<exists>k. int k \<le> max 3 0
          \<and> snd (run_command 3 1 (\<lambda>k. if k < 3 then Raises else Responds (JStr ''ok'')))
              = sleep_then_request 1 k
          \<and> (\<forall>i. 0 < i \<and> i < k \<longrightarrow> (if i < 3 then Raises else Responds (JStr ''ok'')) = Raises)"
    using retry_contract [OF h, of 3 "\<lambda>k. if k < 3 then Raises else Responds (JStr ''ok'')"]
    by blast
  show ?thesis
    using h e1 e2 e3 e4 by blast
qed

section \<open>Theorems: URL canonicalization\<close>


















section \<open>Theorems: log state classifier\<close>

text \<open>
  The examples use the clock reading 2023-04-10 12:00:00 and messages sent at
  2023-04-09 11:59:50, one day and ten seconds earlier.
\<close>

lemma cache_full_step_untagged:
  "\<not> tagged_with project_name m
   \<Longrightarrow> cache_full_step msg_str now (upper project_name) flags m = flags"
  by (cases flags) (auto simp add: cache_full_step_def tagged_with_def Let_def)

lemma cache_full_loop_tagged_only:
  "cache_full_loop msg_str now (upper project_name) flags messages
     = cache_full_loop msg_str now (upper project_name) flags
         (filter (tagged_with project_name) messages)"
  by (induction messages arbitrary: flags) (simp_all add: cache_full_step_untagged)

text \<open>
  Cross-project isolation: two message lists that differ only in messages tagged with
  other projects give the same result.
\<close>

lemma cache_full_isolation:
  assumes "filter (tagged_with project_name) messages1
             = filter (tagged_with project_name) messages2"
  shows "cache_full msg_str now project_name messages1
           = cache_full msg_str now project_name messages2"
  unfolding cache_full_def
  using cache_full_loop_tagged_only [of msg_str now project_name "(False, False)" messages1]
    cache_full_loop_tagged_only [of msg_str now project_name "(False, False)" messages2] assms
  by simp

lemma dont_need_is_upper:
  "upper ''NOT REQUESTING TASKS: DON'T NEED'' = ''NOT REQUESTING TASKS: DON'T NEED''"
  by code_simp

lemma cache_full_step_flags:
  assumes "cache_full_step msg_str now (upper project_name) (cpu, gpu) m = (cpu', gpu')"
  shows "(cpu' \<longrightarrow> cpu \<or> (tagged_with project_name m \<and> cpu_full_signal m))
       \<and> (gpu' \<longrightarrow> gpu \<or> (tagged_with project_name m \<and> gpu_full_signal m))"
  using assms
  by (auto simp add: cache_full_step_def tagged_with_def cpu_full_signal_def gpu_full_signal_def
        Let_def dont_need_is_upper split: if_splits)

lemma cache_full_loop_flags:
  assumes "cache_full_loop msg_str now (upper project_name) (cpu, gpu) messages = (cpu', gpu')"
  shows "(cpu' \<longrightarrow> cpu \<or> (\<exists>m \<in> set messages. tagged_with project_name m \<and> cpu_full_signal m))
       \<and> (gpu' \<longrightarrow> gpu \<or> (\<exists>m \<in> set messages. tagged_with project_name m \<and> gpu_full_signal m))"
  using assms
proof (induction messages arbitrary: cpu gpu)
  case Nil
  then show ?case by simp
next
  case (Cons m messages)
  obtain c g where s: "cache_full_step msg_str now (upper project_name) (cpu, gpu) m = (c, g)"
    by (cases "cache_full_step msg_str now (upper project_name) (cpu, gpu) m")
  have l: "cache_full_loop msg_str now (upper project_name) (c, g) messages = (cpu', gpu')"
    using Cons.prems s by simp
  show ?case
    using Cons.IH [OF l] cache_full_step_flags [OF s] by auto
qed

text \<open>
  \<open>cache_full\<close> is true only when messages tagged with the project hold a CPU-full
  signal and a GPU-full signal. The statement is silent on the age of these messages.
\<close>

lemma cache_full_only_with_signals:
  assumes "cache_full msg_str now project_name messages"
  shows "(\<exists>m \<in> set messages. tagged_with project_name m \<and> cpu_full_signal m)
       \<and> (\<exists>m \<in> set messages. tagged_with project_name m \<and> gpu_full_signal m)"
proof -
  obtain c g where l: "cache_full_loop msg_str now (upper project_name) (False, False) messages = (c, g)"
    by (cases "cache_full_loop msg_str now (upper project_name) (False, False) messages")
  have "c \<and> g" using assms l by (simp add: cache_full_def split: if_splits)
  then show ?thesis using cache_full_loop_flags [OF l] by simp
qed

text \<open>
  C3 fails on the code: the test of the age reads \<open>difference.seconds\<close>, the seconds
  field of the \<open>timedelta\<close>, where the comment beside it says that a message more than
  5 minutes old is skipped. A message one day and ten seconds old has the seconds field
  10 and is not skipped: it decides the result of \<open>cache_full\<close> and of
  \<open>project_backoff\<close>, which differ from the results on the list without it.
\<close>

theorem old_message_decides_result:
  "older_than_5_minutes 63816724800000000
     \<lparr>msg_time = 63816638390000000,
      body = ''testproject | NOT REQUESTING TASKS: DON'T NEED (JOB CACHE FULL)'',
      project = ''testproject''\<rparr>
   \<and> cache_full (str_message (\<lambda>t. ''datetime.datetime(2023, 4, 9, 11, 59, 50)''))
        63816724800000000 ''testproject''
        [\<lparr>msg_time = 63816638390000000,
          body = ''testproject | NOT REQUESTING TASKS: DON'T NEED (JOB CACHE FULL)'',
          project = ''testproject''\<rparr>]
   \<and> \<not> cache_full (str_message (\<lambda>t. ''datetime.datetime(2023, 4, 9, 11, 59, 50)''))
        63816724800000000 ''testproject''
        (filter (\<lambda>m. \<not> older_than_5_minutes 63816724800000000 m)
           [\<lparr>msg_time = 63816638390000000,
             body = ''testproject | NOT REQUESTING TASKS: DON'T NEED (JOB CACHE FULL)'',
             project = ''testproject''\<rparr>])
   \<and> older_than_5_minutes 63816724800000000
        \<lparr>msg_time = 63816638390000000,
         body = ''testproject | PROJECT HAS NO TASKS AVAILABLE'',
         project = ''testproject''\<rparr>
   \<and> project_backoff (str_message (\<lambda>t. ''datetime.datetime(2023, 4, 9, 11, 59, 50)''))
        63816724800000000 ''testproject''
        [\<lparr>msg_time = 63816638390000000,
          body = ''testproject | PROJECT HAS NO TASKS AVAILABLE'',
          project = ''testproject''\<rparr>]
   \<and> \<not> project_backoff (str_message (\<lambda>t. ''datetime.datetime(2023, 4, 9, 11, 59, 50)''))
        63816724800000000 ''testproject''
        (filter (\<lambda>m. \<not> older_than_5_minutes 63816724800000000 m)
           [\<lparr>msg_time = 63816638390000000,
             body = ''testproject | PROJECT HAS NO TASKS AVAILABLE'',
             project = ''testproject''\<rparr>])"
  by code_simp

text \<open>
  C8 fails on the code through the same test of the age: \<open>cache_full\<close> returns true on
  a list in which the CPU-full and the GPU-full signal come from messages outside the
  5-minute window, and which holds no message within the window.
\<close>

theorem cache_full_true_outside_window:
  "cache_full (str_message (\<lambda>t. ''datetime.datetime(2023, 4, 9, 11, 59, 50)''))
     63816724800000000 ''testproject''
     [\<lparr>msg_time = 63816638390000000,
       body = ''testproject | CPU: JOB CACHE FULL'', project = ''testproject''\<rparr>,
      \<lparr>msg_time = 63816638390000000,
       body = ''testproject | NOT REQUESTING TASKS: DON'T NEED ()'', project = ''testproject''\<rparr>]
   \<and> older_than_5_minutes 63816724800000000
        \<lparr>msg_time = 63816638390000000,
         body = ''testproject | CPU: JOB CACHE FULL'', project = ''testproject''\<rparr>
   \<and> older_than_5_minutes 63816724800000000
        \<lparr>msg_time = 63816638390000000,
         body = ''testproject | NOT REQUESTING TASKS: DON'T NEED ()'', project = ''testproject''\<rparr>"
  by code_simp

section \<open>Theorems: magnitude ratio engine\<close>









end
